theory Spec2Isabelle
  imports Complex_Main "HOL-Library.List_Lexorder" "HOL-Library.Char_ord" "HOL-Library.Sublist"
begin

section \<open>Strings\<close>

text \<open>
  A JavaScript string is a sequence of code units; the strings of this development are the
  strings whose code units are below 256, so that a \<open>char\<close> is a code unit. \<open>trim\<close>
  removes the white space and line terminator characters, of which tab, line feed,
  vertical tab, form feed, carriage return, space and no-break space (160) lie in that
  range. \<open>toLowerCase\<close> maps the capital letters A-Z and the accented capitals 192-222
  (but not the multiplication sign 215) to their small letters 32 code units higher.
\<close>

definition is_space :: "char \<Rightarrow> bool" where
  "is_space c \<longleftrightarrow> (of_char c :: nat) \<in> {9, 10, 11, 12, 13, 32, 160}"

definition is_digit :: "char \<Rightarrow> bool" where
  "is_digit c \<longleftrightarrow> (48::nat) \<le> of_char c \<and> (of_char c :: nat) \<le> 57"

definition trim :: "string \<Rightarrow> string" where
  "trim s = rev (dropWhile is_space (rev (dropWhile is_space s)))"

definition toLowerCase_char :: "char \<Rightarrow> char" where
  "toLowerCase_char c =
     (if ((65::nat) \<le> of_char c \<and> (of_char c :: nat) \<le> 90)
         \<or> ((192::nat) \<le> of_char c \<and> (of_char c :: nat) \<le> 222 \<and> (of_char c :: nat) \<noteq> 215)
      then char_of (of_char c + (32::nat)) else c)"

definition toLowerCase :: "string \<Rightarrow> string" where
  "toLowerCase s = map toLowerCase_char s"

text \<open>
  \<open>toUpperCase\<close> maps the small letters a-z and the accented small letters 224-254 (but
  not the division sign 247) to their capitals 32 code units lower, and the sharp s (223)
  to \<open>SS\<close>. The capitals of the micro sign (181) and of y with diaeresis (255) lie
  above 255: strings with these two code units are outside the domain of this function,
  which leaves them alone.
\<close>

definition toUpperCase_char :: "char \<Rightarrow> string" where
  "toUpperCase_char c =
     (if ((97::nat) \<le> of_char c \<and> (of_char c :: nat) \<le> 122)
         \<or> ((224::nat) \<le> of_char c \<and> (of_char c :: nat) \<le> 254 \<and> (of_char c :: nat) \<noteq> 247)
      then [char_of (of_char c - (32::nat))]
      else if (of_char c :: nat) = 223 then ''SS'' else [c])"

definition toUpperCase :: "string \<Rightarrow> string" where
  "toUpperCase s = concat (map toUpperCase_char s)"

text \<open>\<open>s.replaceAll(c, rep)\<close> for a one-character pattern \<open>c\<close>.\<close>

definition replaceAll :: "char \<Rightarrow> string \<Rightarrow> string \<Rightarrow> string" where
  "replaceAll c rep s = concat (map (\<lambda>x. if x = c then rep else [x]) s)"

text \<open>\<open>s.padStart(n, "0")\<close>.\<close>

definition padStart0 :: "nat \<Rightarrow> string \<Rightarrow> string" where
  "padStart0 n s = replicate (n - length s) CHR ''0'' @ s"

text \<open>\<open>msg.includes(pat)\<close>: \<open>pat\<close> occurs in \<open>msg\<close> as a contiguous substring.\<close>

fun is_prefix :: "string \<Rightarrow> string \<Rightarrow> bool" where
  "is_prefix [] _ = True"
| "is_prefix (p # ps) [] = False"
| "is_prefix (p # ps) (c # cs) = (p = c \<and> is_prefix ps cs)"

fun str_includes :: "string \<Rightarrow> string \<Rightarrow> bool" where
  "str_includes [] pat = (pat = [])"
| "str_includes (c # cs) pat = (is_prefix pat (c # cs) \<or> str_includes cs pat)"

text \<open>
  \<open>cleanStr(v)\<close>: a value read from a row is a string, or \<open>undefined\<close>/\<open>null\<close>
  (here \<open>None\<close>) when the column is absent.
\<close>

definition cleanStr :: "string option \<Rightarrow> string" where
  "cleanStr v = (case v of None \<Rightarrow> [] | Some s \<Rightarrow> trim s)"

definition normalizeDocId :: "string \<Rightarrow> string" where
  "normalizeDocId raw = replaceAll CHR ''/'' ''-'' (cleanStr (Some raw))"

text \<open>The \<open>??\<close> operator on values that may be undefined.\<close>

definition nullish :: "'a option \<Rightarrow> 'a option \<Rightarrow> 'a option" where
  "nullish a b = (case a of None \<Rightarrow> b | Some x \<Rightarrow> Some x)"

text \<open>Decimal rendering of a non-negative integer, as in a template literal.\<close>

definition digit_char :: "nat \<Rightarrow> char" where
  "digit_char d = char_of (48 + d)"

fun String_nat :: "nat \<Rightarrow> string" where
  "String_nat n = (if n < 10 then [digit_char n] else String_nat (n div 10) @ [digit_char (n mod 10)])"

declare String_nat.simps [simp del]

section \<open>Numbers\<close>

text \<open>
  A JavaScript number is an IEEE double: not-a-number, an infinity, or a finite value, which
  is represented by the rational it denotes (the sign of zero is not distinguished).
  An operation that rounds takes the rounding function as its argument \<open>rnd\<close>; the
  programs below use \<open>binary64\<close>, the rounding of double arithmetic. A rounding
  function never produces not-a-number and leaves zero alone.
\<close>

datatype jsnum = NaN | NegInf | Fin rat | PosInf

type_synonym rounding = "rat \<Rightarrow> jsnum"

definition is_rounding :: "rounding \<Rightarrow> bool" where
  "is_rounding rnd \<longleftrightarrow> (\<forall>x. rnd x \<noteq> NaN) \<and> rnd 0 = Fin 0"

fun isFinite :: "jsnum \<Rightarrow> bool" where
  "isFinite (Fin _) = True"
| "isFinite _ = False"

text \<open>The comparison \<open>a >= b\<close> and \<open>a < b\<close>; both are false when an operand is not a number.\<close>

fun js_ge :: "jsnum \<Rightarrow> jsnum \<Rightarrow> bool" where
  "js_ge NaN _ = False"
| "js_ge _ NaN = False"
| "js_ge PosInf _ = True"
| "js_ge _ NegInf = True"
| "js_ge (Fin a) (Fin b) = (b \<le> a)"
| "js_ge (Fin a) PosInf = False"
| "js_ge NegInf _ = False"

fun js_lt :: "jsnum \<Rightarrow> jsnum \<Rightarrow> bool" where
  "js_lt NaN _ = False"
| "js_lt _ NaN = False"
| "js_lt PosInf _ = False"
| "js_lt _ NegInf = False"
| "js_lt (Fin a) (Fin b) = (a < b)"
| "js_lt (Fin a) PosInf = True"
| "js_lt NegInf _ = True"

text \<open>Addition and subtraction of doubles.\<close>

fun js_add :: "rounding \<Rightarrow> jsnum \<Rightarrow> jsnum \<Rightarrow> jsnum" where
  "js_add rnd NaN _ = NaN"
| "js_add rnd _ NaN = NaN"
| "js_add rnd (Fin a) (Fin b) = rnd (a + b)"
| "js_add rnd PosInf NegInf = NaN"
| "js_add rnd NegInf PosInf = NaN"
| "js_add rnd PosInf _ = PosInf"
| "js_add rnd NegInf _ = NegInf"
| "js_add rnd (Fin a) PosInf = PosInf"
| "js_add rnd (Fin a) NegInf = NegInf"

fun js_neg :: "jsnum \<Rightarrow> jsnum" where
  "js_neg NaN = NaN"
| "js_neg NegInf = PosInf"
| "js_neg PosInf = NegInf"
| "js_neg (Fin a) = Fin (- a)"

definition js_sub :: "rounding \<Rightarrow> jsnum \<Rightarrow> jsnum \<Rightarrow> jsnum" where
  "js_sub rnd a b = js_add rnd a (js_neg b)"

text \<open>\<open>x || 0\<close> for a number that may be undefined: zero and not-a-number are falsy.\<close>

definition or_zero :: "jsnum option \<Rightarrow> jsnum" where
  "or_zero v = (case v of None \<Rightarrow> Fin 0
                | Some x \<Rightarrow> if x = NaN \<or> x = Fin 0 then Fin 0 else x)"

text \<open>
  Rounding to the nearest double, ties to the even significand. A double has a significand
  of 53 bits and an exponent of at least \<open>-1022\<close>; a result of magnitude \<open>2^1024\<close>
  or more is an infinity.
\<close>

function bit_length :: "int \<Rightarrow> nat" where
  "bit_length k = (if k \<le> 0 then 0 else Suc (bit_length (k div 2)))"
  by pat_completeness auto
termination
  by (relation "measure nat") auto

declare bit_length.simps [simp del]

definition pow2 :: "int \<Rightarrow> rat" where
  "pow2 k = (if 0 \<le> k then 2 ^ nat k else 1 / 2 ^ nat (- k))"

text \<open>The exponent \<open>k\<close> with \<open>2^k \<le> a < 2^(k+1)\<close>, for a positive \<open>a\<close>.\<close>

definition floor_log2 :: "rat \<Rightarrow> int" where
  "floor_log2 a =
     (let pq = quotient_of a;
          k = int (bit_length (fst pq)) - int (bit_length (snd pq))
      in if pow2 k \<le> a then k else k - 1)"

definition round_half_even :: "rat \<Rightarrow> int" where
  "round_half_even r =
     (let f = \<lfloor>r\<rfloor>; d = r - of_int f in
      if d < 1 / 2 then f else if 1 / 2 < d then f + 1 else if even f then f else f + 1)"

definition binary64 :: rounding where
  "binary64 x =
     (if x = 0 then Fin 0
      else (let a = \<bar>x\<bar>;
                ex = max (floor_log2 a) (- 1022);
                ulp = pow2 (ex - 52);
                y = of_int (round_half_even (a / ulp)) * ulp
            in if 1024 \<le> floor_log2 y then (if x < 0 then NegInf else PosInf)
               else Fin (if x < 0 then - y else y)))"

section \<open>Account tiers\<close>

datatype tier = TierA | TierB | TierC | TierD

definition tierFromSales25 :: "jsnum \<Rightarrow> tier" where
  "tierFromSales25 sales25 =
     (if js_ge sales25 (Fin 10000) then TierA
      else if js_ge sales25 (Fin 5000) then TierB
      else if js_ge sales25 (Fin 2000) then TierC
      else TierD)"

section \<open>The batched writer's commit with retry\<close>

text \<open>
  The message of a failed commit is searched for the transient signatures. The invoice
  importer looks for four of them, the index builder for three.
\<close>

definition transient_import :: "string \<Rightarrow> bool" where
  "transient_import msg \<longleftrightarrow>
     str_includes msg ''ABORTED'' \<or> str_includes msg ''DEADLINE_EXCEEDED''
     \<or> str_includes msg ''RESOURCE_EXHAUSTED'' \<or> str_includes msg ''UNAVAILABLE''"

definition transient_index :: "string \<Rightarrow> bool" where
  "transient_index msg \<longleftrightarrow>
     str_includes msg ''ABORTED'' \<or> str_includes msg ''DEADLINE_EXCEEDED''
     \<or> str_includes msg ''RESOURCE_EXHAUSTED''"

text \<open>
  \<open>commitWithRetry(batch, attempt = 1)\<close>. What the store answers to the commit made at
  attempt \<open>k\<close> is \<open>outcome k\<close>: \<open>None\<close> when the commit succeeds, the message of the
  error otherwise. The result records the error thrown to the caller (\<open>None\<close> when the
  promise resolves), the waits in milliseconds in the order they were made, and the number
  of commits issued.
\<close>

record retry_result =
  thrown :: "string option"
  waits :: "nat list"
  commits :: nat

function commitWithRetry ::
  "(string \<Rightarrow> bool) \<Rightarrow> (nat \<Rightarrow> string option) \<Rightarrow> nat \<Rightarrow> retry_result" where
  "commitWithRetry transient outcome attempt =
     (case outcome attempt of
        None \<Rightarrow> \<lparr>thrown = None, waits = [], commits = 1\<rparr>
      | Some msg \<Rightarrow>
          if attempt \<le> 6 \<and> transient msg
          then (let r = commitWithRetry transient outcome (attempt + 1)
                in r\<lparr>waits := (250 * attempt * attempt) # waits r, commits := Suc (commits r)\<rparr>)
          else \<lparr>thrown = Some msg, waits = [], commits = 1\<rparr>)"
  by pat_completeness auto
termination
  by (relation "measure (\<lambda>(t, out, a). 7 - a)") auto

declare commitWithRetry.simps [simp del]

text \<open>Commit outcomes used as concrete inputs.\<close>

definition fails_twice :: "nat \<Rightarrow> string option" where
  "fails_twice k = (if k \<le> 2 then Some ''10 ABORTED: too much contention'' else None)"

definition always_exhausted :: "nat \<Rightarrow> string option" where
  "always_exhausted k = Some ''8 RESOURCE_EXHAUSTED: quota exceeded''"

definition permission_denied :: "nat \<Rightarrow> string option" where
  "permission_denied k = Some ''7 PERMISSION_DENIED: missing permissions''"

section \<open>Identifier padding\<close>

text \<open>\<open>padSalesperson\<close> of the index builder.\<close>

definition padSalesperson :: "string option \<Rightarrow> string" where
  "padSalesperson v =
     (let s = cleanStr v in
      if s = [] then [] else if 4 \<le> length s then s else padStart0 4 s)"

text \<open>\<open>normRep\<close> of the lookup route; \<open>s.replace(/\D/g, "")\<close> keeps the digits.\<close>

definition normRep :: "string option \<Rightarrow> string" where
  "normRep v =
     (let s = trim (case v of None \<Rightarrow> [] | Some x \<Rightarrow> x) in
      if s = [] then []
      else (let digits = filter is_digit s in padStart0 4 (if digits = [] then s else digits)))"

text \<open>The owner code of a header payload: \<open>cleanStr(...).padStart(4, "0")\<close>.\<close>

definition header_salespersonNo :: "string option \<Rightarrow> string" where
  "header_salespersonNo v = padStart0 4 (cleanStr v)"

text \<open>An identifier looks numeric when it is a non-empty string of decimal digits.\<close>

definition numeric_looking :: "string \<Rightarrow> bool" where
  "numeric_looking s \<longleftrightarrow> s \<noteq> [] \<and> list_all is_digit s"

section \<open>Dates\<close>

text \<open>
  A \<open>Date\<close> built by \<open>new Date(year, monthIndex, day)\<close> is local midnight of a day; it is
  represented by the number of that day, counted from 1 January 1970, so that comparing
  two such dates compares their day numbers. \<open>days_from_civil\<close> numbers the days of the
  proleptic Gregorian calendar. \<open>MakeDay\<close> carries a month index outside 0..11 into the
  year and a day outside the month into the following months, and the \<open>Date\<close> constructor
  reads a year from 0 to 99 as 1900 + year.
\<close>

definition days_from_civil :: "int \<Rightarrow> int \<Rightarrow> int \<Rightarrow> int" where
  "days_from_civil y m d =
     (let y' = (if m \<le> 2 then y - 1 else y);
          era = y' div 400;
          yoe = y' - era * 400;
          mp = (m + 9) mod 12;
          doy = (153 * mp + 2) div 5 + d - 1;
          doe = yoe * 365 + yoe div 4 - yoe div 100 + doy
      in era * 146097 + doe - 719468)"

definition MakeDay :: "int \<Rightarrow> int \<Rightarrow> int \<Rightarrow> int" where
  "MakeDay year month date =
     days_from_civil (year + month div 12) (month mod 12 + 1) 1 + date - 1"

definition js_Date :: "int \<Rightarrow> int \<Rightarrow> int \<Rightarrow> int" where
  "js_Date year month date =
     MakeDay (if 0 \<le> year \<and> year \<le> 99 then 1900 + year else year) month date"

text \<open>The value of a string of decimal digits.\<close>

definition digit_val :: "char \<Rightarrow> nat" where
  "digit_val c = of_char c - 48"

definition nat_of_digits :: "string \<Rightarrow> nat" where
  "nat_of_digits s = foldl (\<lambda>n c. 10 * n + digit_val c) 0 s"

text \<open>
  The match of \<open>/^(\d{1,2})\/(\d{1,2})\/(\d{4})$/\<close>: the three captured groups, or \<open>None\<close>
  when the string does not match.
\<close>

definition match_us_date :: "string \<Rightarrow> (string \<times> string \<times> string) option" where
  "match_us_date s =
     (let m = takeWhile is_digit s; r1 = dropWhile is_digit s in
      if (length m = 1 \<or> length m = 2) \<and> r1 \<noteq> [] \<and> hd r1 = CHR ''/''
      then (let d = takeWhile is_digit (tl r1); r2 = dropWhile is_digit (tl r1) in
            if (length d = 1 \<or> length d = 2) \<and> r2 \<noteq> [] \<and> hd r2 = CHR ''/''
            then (let y = tl r2 in
                  if length y = 4 \<and> list_all is_digit y then Some (m, d, y) else None)
            else None)
      else None)"

definition parseUSDate :: "string option \<Rightarrow> int option" where
  "parseUSDate mmddyyyy =
     (let s = cleanStr mmddyyyy in
      case match_us_date s of
        None \<Rightarrow> None
      | Some (m1, m2, m3) \<Rightarrow>
          (let month = nat_of_digits m1; day = nat_of_digits m2; year = nat_of_digits m3 in
           if month = 0 \<or> day = 0 \<or> year = 0 then None
           else Some (js_Date (int year) (int month - 1) (int day))))"

text \<open>
  The clock read by \<open>new Date()\<close> in \<open>cutoffDate\<close>: the local calendar fields
  \<open>getFullYear()\<close>, \<open>getMonth()\<close> (from 0) and \<open>getDate()\<close>.
\<close>

record clock =
  fullYear :: int
  month0 :: int
  dayOfMonth :: int

definition cutoffDate :: "clock \<Rightarrow> int \<Rightarrow> int" where
  "cutoffDate now yearsBack = js_Date (fullYear now - yearsBack) (month0 now) (dayOfMonth now)"

text \<open>
  The words of the specification, for comparison: a string has the shape of a fixed date
  when it is one or two digits, a slash, one or two digits, a slash and four digits; the
  three numbers name a calendar date when the month is 1..12 and the day exists in it.
\<close>

definition us_date_shape :: "string \<Rightarrow> string \<Rightarrow> string \<Rightarrow> string \<Rightarrow> bool" where
  "us_date_shape s m d y \<longleftrightarrow>
     s = m @ ''/'' @ d @ ''/'' @ y
     \<and> list_all is_digit m \<and> (length m = 1 \<or> length m = 2)
     \<and> list_all is_digit d \<and> (length d = 1 \<or> length d = 2)
     \<and> list_all is_digit y \<and> length y = 4"

definition leap_year :: "int \<Rightarrow> bool" where
  "leap_year y \<longleftrightarrow> y mod 4 = 0 \<and> (y mod 100 \<noteq> 0 \<or> y mod 400 = 0)"

definition days_in_month :: "int \<Rightarrow> int \<Rightarrow> int" where
  "days_in_month y m =
     (if m = 2 then (if leap_year y then 29 else 28)
      else if m = 4 \<or> m = 6 \<or> m = 9 \<or> m = 11 then 30 else 31)"

definition is_calendar_date :: "int \<Rightarrow> int \<Rightarrow> int \<Rightarrow> bool" where
  "is_calendar_date y m d \<longleftrightarrow> 1 \<le> m \<and> m \<le> 12 \<and> 1 \<le> d \<and> d \<le> days_in_month y m"

section \<open>Rows and field access\<close>

text \<open>
  A row delivered by the CSV parser is an object from column names to strings; it is
  modelled by the list of its entries in column order (the names of an object are
  distinct). \<open>ciGet\<close> looks a column up by name, then by the first name that is equal
  up to case.
\<close>

type_synonym row = "(string \<times> string) list"

definition ciGet :: "row \<Rightarrow> string \<Rightarrow> string option" where
  "ciGet row key =
     (case map_of row key of
        Some v \<Rightarrow> Some v
      | None \<Rightarrow>
          (case find (\<lambda>k. toLowerCase k = toLowerCase key) (map fst row) of
             None \<Rightarrow> None
           | Some found \<Rightarrow> if found = [] then None else map_of row found))"

section \<open>Parsing numbers\<close>

text \<open>
  \<open>Number(s)\<close> on a string: white space is trimmed, the empty string is 0, and the rest
  must be a numeric literal: a binary, octal or hexadecimal integer, or an optionally
  signed \<open>Infinity\<close> or decimal literal with optional fraction and exponent. Anything else
  is not a number.
\<close>

definition hex_val :: "char \<Rightarrow> nat option" where
  "hex_val c =
     (let n = (of_char c :: nat) in
      if 48 \<le> n \<and> n \<le> 57 then Some (n - 48)
      else if 65 \<le> n \<and> n \<le> 70 then Some (n - 55)
      else if 97 \<le> n \<and> n \<le> 102 then Some (n - 87)
      else None)"

definition radix_digits :: "nat \<Rightarrow> string \<Rightarrow> nat option" where
  "radix_digits b ds =
     (if ds \<noteq> [] \<and> list_all (\<lambda>c. case hex_val c of None \<Rightarrow> False | Some d \<Rightarrow> d < b) ds
      then Some (foldl (\<lambda>n c. b * n + the (hex_val c)) 0 ds)
      else None)"

definition parse_radix :: "string \<Rightarrow> nat option" where
  "parse_radix t =
     (case t of
        c0 # c1 # ds \<Rightarrow>
          if c0 = CHR ''0'' \<and> (c1 = CHR ''x'' \<or> c1 = CHR ''X'') then radix_digits 16 ds
          else if c0 = CHR ''0'' \<and> (c1 = CHR ''o'' \<or> c1 = CHR ''O'') then radix_digits 8 ds
          else if c0 = CHR ''0'' \<and> (c1 = CHR ''b'' \<or> c1 = CHR ''B'') then radix_digits 2 ds
          else None
      | _ \<Rightarrow> None)"

definition parse_exponent :: "string \<Rightarrow> int option" where
  "parse_exponent r =
     (if r = [] then Some 0
      else if hd r = CHR ''e'' \<or> hd r = CHR ''E''
      then (let t = tl r;
                neg = (t \<noteq> [] \<and> hd t = CHR ''-'');
                ds = (if t \<noteq> [] \<and> (hd t = CHR ''-'' \<or> hd t = CHR ''+'') then tl t else t)
            in if ds \<noteq> [] \<and> list_all is_digit ds
               then Some (if neg then - int (nat_of_digits ds) else int (nat_of_digits ds))
               else None)
      else None)"

definition pow10 :: "int \<Rightarrow> rat" where
  "pow10 e = (if 0 \<le> e then 10 ^ nat e else 1 / 10 ^ nat (- e))"

definition parse_unsigned_decimal :: "string \<Rightarrow> rat option" where
  "parse_unsigned_decimal u =
     (let ip = takeWhile is_digit u;
          r1 = dropWhile is_digit u;
          dot = (r1 \<noteq> [] \<and> hd r1 = CHR ''.'');
          fp = (if dot then takeWhile is_digit (tl r1) else []);
          r2 = (if dot then dropWhile is_digit (tl r1) else r1)
      in if ip = [] \<and> fp = [] then None
         else (case parse_exponent r2 of
                 None \<Rightarrow> None
               | Some e \<Rightarrow>
                   Some (of_nat (nat_of_digits (ip @ fp)) / 10 ^ length fp * pow10 e)))"

definition js_Number :: "rounding \<Rightarrow> string \<Rightarrow> jsnum" where
  "js_Number rnd s =
     (let t = trim s in
      if t = [] then Fin 0
      else (case parse_radix t of
              Some n \<Rightarrow> rnd (of_nat n)
            | None \<Rightarrow>
                (let neg = (hd t = CHR ''-'');
                     u = (if hd t = CHR ''-'' \<or> hd t = CHR ''+'' then tl t else t)
                 in if u = ''Infinity'' then (if neg then NegInf else PosInf)
                    else (case parse_unsigned_decimal u of
                            None \<Rightarrow> NaN
                          | Some q \<Rightarrow> rnd (if neg then - q else q)))))"

text \<open>\<open>parseNumber\<close> of the importer.\<close>

definition parseNumber :: "rounding \<Rightarrow> string option \<Rightarrow> jsnum" where
  "parseNumber rnd v =
     (let s = cleanStr v in
      if s = [] then Fin 0
      else (let n = js_Number rnd (replaceAll CHR ''$'' [] (replaceAll CHR '','' [] s))
            in if isFinite n then n else Fin 0))"

section \<open>The document store and the batched writer\<close>

text \<open>
  The document store is an external collaborator. A document is a finite map from field
  paths to values (a nested map field \<open>raw.k\<close> is the path \<open>[raw, k]\<close>), the store a map
  from document paths to documents. A write \<open>set(ref, payload, {merge: true})\<close> creates
  the document when it is absent and otherwise overwrites the fields of the payload and
  keeps the others. A field set to \<open>FieldValue.serverTimestamp()\<close> gets the time of the
  server at the commit that carries the write.
\<close>

datatype fval =
  VStr string | VNum jsnum | VDate int | VServerTimestamp | VTime nat | VList "string list"

type_synonym field_path = "string list"
type_synonym payload = "(field_path \<times> fval) list"
type_synonym doc_path = "string list"
type_synonym doc_write = "doc_path \<times> payload"
type_synonym document = "field_path \<rightharpoonup> fval"
type_synonym store = "doc_path \<rightharpoonup> document"

definition upsert :: "store \<Rightarrow> doc_write \<Rightarrow> store" where
  "upsert s w =
     s(fst w \<mapsto> (case s (fst w) of None \<Rightarrow> Map.empty | Some d \<Rightarrow> d) ++ map_of (snd w))"

text \<open>A successful \<open>batch.commit()\<close> applies the writes of the batch in order.\<close>

definition commit :: "doc_write list \<Rightarrow> store \<Rightarrow> store" where
  "commit b s = foldl upsert s b"

definition stamp :: "nat \<Rightarrow> doc_write \<Rightarrow> doc_write" where
  "stamp t w =
     (fst w, map (\<lambda>fv. (fst fv, if snd fv = VServerTimestamp then VTime t else snd fv)) (snd w))"

text \<open>
  The programs never read the store: what a run does to it is the list of the batches it
  commits, in the order of the commits. The store applies them in that order, the
  \<open>n\<close>-th commit of the run (counted from 0) at the server time \<open>clock n\<close>. Commits are
  taken to succeed; what \<open>commitWithRetry\<close> does when they fail is modelled above.
\<close>

type_synonym commit_log = "doc_write list list"

definition server_apply :: "(nat \<Rightarrow> nat) \<Rightarrow> commit_log \<Rightarrow> store \<Rightarrow> store" where
  "server_apply clock batches s =
     foldl (\<lambda>s' nb. commit (map (stamp (clock (fst nb))) (snd nb)) s') s (enumerate 0 batches)"

text \<open>
  Each pass keeps a batch object and a counter. The record holds the batches committed
  so far, the writes of the current batch object, the counter, and whether \<open>commit()\<close>
  has been called on the current batch object.
\<close>

record writer =
  sent :: commit_log
  batch :: "doc_write list"
  batchCount :: nat
  committed :: bool

definition new_writer :: writer where
  "new_writer = \<lparr>sent = [], batch = [], batchCount = 0, committed = False\<rparr>"

text \<open>
  In a loop that awaits its commits (the totals pass, the index builder):
  \<open>batch.set(...)\<close>, \<open>count++\<close>, and when the counter has reached the limit the batch is
  committed and, the commit done, replaced by a fresh one with the counter at 0.
\<close>

definition batch_set :: "nat \<Rightarrow> doc_write \<Rightarrow> writer \<Rightarrow> writer" where
  "batch_set limit w wr =
     (let b = batch wr @ [w]; n = batchCount wr + 1 in
      if limit \<le> n then wr\<lparr>sent := sent wr @ [b], batch := [], batchCount := 0\<rparr>
      else wr\<lparr>batch := b, batchCount := n\<rparr>)"

text \<open>After a pass: \<open>if (count > 0) await commitWithRetry(batch)\<close>.\<close>

definition flush :: "writer \<Rightarrow> commit_log" where
  "flush wr = (if 0 < batchCount wr then sent wr @ [batch wr] else sent wr)"

text \<open>
  In a row handler of the streaming reader the same statements run in an \<open>async\<close>
  function that the parser does not wait for. \<open>batch.set(...)\<close> on a batch object that
  has been committed throws; otherwise the write joins the batch and the counter goes
  up. \<open>commitWithRetry(batch)\<close> sends the batch; the statements after the \<open>await\<close>
  (a fresh batch object, the counter back to 0) run only when the commit has resolved.
\<close>

definition batch_add :: "doc_write \<Rightarrow> writer \<Rightarrow> writer option" where
  "batch_add w wr =
     (if committed wr then None
      else Some (wr\<lparr>batch := batch wr @ [w], batchCount := batchCount wr + 1\<rparr>))"

definition commit_start :: "writer \<Rightarrow> writer" where
  "commit_start wr = wr\<lparr>sent := sent wr @ [batch wr], committed := True\<rparr>"

definition commit_done :: "writer \<Rightarrow> writer" where
  "commit_done wr =
     (if committed wr then wr\<lparr>batch := [], batchCount := 0, committed := False\<rparr> else wr)"

section \<open>The streaming reader\<close>

text \<open>
  \<open>streamParseCsv(filePath, onRow, label)\<close>. The parser reads the file in chunks and calls
  \<open>step\<close> for each row of a chunk, one call after the other, without waiting for the
  promise that the \<open>async\<close> function \<open>step\<close> returns. So within a chunk only the
  statements up to the first \<open>await\<close> that suspends run for each row: the counting of the
  row and the handler \<open>onRow\<close> up to its own \<open>await\<close>. What follows an \<open>await\<close> runs when
  the program is idle between two chunks: there the skips decided since the last idle
  point are counted, and a commit that has resolved in the meantime lets its handler go
  on. The input of the reader is therefore the list of these events: a row delivered by
  the parser, or an idle point, with whether the commit in flight (if any) has resolved.
  \<open>complete\<close> runs after the last event and reports the counters as they are then.

  The handler answers \<open>Kept\<close> (it returns true, possibly after its commit), \<open>Declined\<close>
  (it returns false) or \<open>Threw\<close>; \<open>resumed\<close> is what the handler does after an awaited
  commit.
\<close>

record parse_result =
  res_data :: row
  res_errors :: nat

datatype event = Row parse_result | Idle bool

datatype outcome = Kept | Declined | Threw

record counts =
  rowCount :: nat
  skippedCount :: nat
  parseErrorCount :: nat

record 's reader =
  rd_counts :: counts
  rd_unsettled :: nat
  rd_state :: 's

definition step ::
  "(row \<Rightarrow> nat \<Rightarrow> 's \<Rightarrow> outcome \<times> 's) \<Rightarrow> 's reader \<Rightarrow> parse_result \<Rightarrow> 's reader" where
  "step onRow rd results =
     (let c = rd_counts rd; n = rowCount c + 1; r = res_data results in
      if r = []
      then \<lparr>rd_counts = c\<lparr>rowCount := n, skippedCount := skippedCount c + 1\<rparr>,
            rd_unsettled = rd_unsettled rd, rd_state = rd_state rd\<rparr>
      else (let ok_st = onRow r n (rd_state rd) in
            \<lparr>rd_counts = c\<lparr>rowCount := n,
                             parseErrorCount := parseErrorCount c + res_errors results\<rparr>,
             rd_unsettled = (if fst ok_st = Kept then rd_unsettled rd else rd_unsettled rd + 1),
             rd_state = snd ok_st\<rparr>))"

definition idle :: "('s \<Rightarrow> 's) \<Rightarrow> bool \<Rightarrow> 's reader \<Rightarrow> 's reader" where
  "idle resumed resolved rd =
     \<lparr>rd_counts = (rd_counts rd)\<lparr>skippedCount := skippedCount (rd_counts rd) + rd_unsettled rd\<rparr>,
      rd_unsettled = 0,
      rd_state = (if resolved then resumed (rd_state rd) else rd_state rd)\<rparr>"

fun event_step ::
  "(row \<Rightarrow> nat \<Rightarrow> 's \<Rightarrow> outcome \<times> 's) \<Rightarrow> ('s \<Rightarrow> 's) \<Rightarrow> 's reader \<Rightarrow> event \<Rightarrow> 's reader" where
  "event_step onRow resumed rd (Row results) = step onRow rd results"
| "event_step onRow resumed rd (Idle resolved) = idle resumed resolved rd"

definition stream_run ::
  "(row \<Rightarrow> nat \<Rightarrow> 's \<Rightarrow> outcome \<times> 's) \<Rightarrow> ('s \<Rightarrow> 's) \<Rightarrow> event list \<Rightarrow> 's \<Rightarrow> 's reader" where
  "stream_run onRow resumed events st =
     foldl (event_step onRow resumed)
       \<lparr>rd_counts = \<lparr>rowCount = 0, skippedCount = 0, parseErrorCount = 0\<rparr>,
        rd_unsettled = 0, rd_state = st\<rparr> events"

definition streamParseCsv ::
  "(row \<Rightarrow> nat \<Rightarrow> 's \<Rightarrow> outcome \<times> 's) \<Rightarrow> ('s \<Rightarrow> 's) \<Rightarrow> event list \<Rightarrow> 's \<Rightarrow> counts \<times> 's" where
  "streamParseCsv onRow resumed events st =
     (let rd = stream_run onRow resumed events st in (rd_counts rd, rd_state rd))"

section \<open>The invoice importer\<close>

text \<open>What a run reads from its environment.\<close>

record env =
  env_now :: clock
  env_yearsBack :: int
  env_batchLimit :: nat
  env_hhFile :: string
  env_hdFile :: string

definition cutoff :: "env \<Rightarrow> int" where
  "cutoff e = cutoffDate (env_now e) (env_yearsBack e)"

text \<open>\<open>sanitizeRow\<close>: trimmed column names, empty names dropped, dots replaced.\<close>

definition obj_set :: "string \<Rightarrow> 'v \<Rightarrow> (string \<times> 'v) list \<Rightarrow> (string \<times> 'v) list" where
  "obj_set k v obj =
     (if k \<in> fst ` set obj then map (\<lambda>kv. if fst kv = k then (k, v) else kv) obj
      else obj @ [(k, v)])"

definition sanitizeRow :: "row \<Rightarrow> row" where
  "sanitizeRow r =
     foldl (\<lambda>out kv. let key = trim (fst kv) in
                      if key = [] then out
                      else obj_set (replaceAll CHR ''.'' ''_'' key) (snd kv) out) [] r"

definition raw_fields :: "row \<Rightarrow> payload" where
  "raw_fields r = map (\<lambda>kv. ([''raw'', fst kv], VStr (snd kv))) (sanitizeRow r)"

definition source_fields :: "string \<Rightarrow> nat \<Rightarrow> payload" where
  "source_fields file rowIndex =
     [([''source'', ''file''], VStr file), ([''source'', ''rowIndex''], VNum (Fin (of_nat rowIndex)))]"

subsection \<open>Header pass\<close>

record header_state =
  inRangeInvoiceNos :: "string set"
  headerFreight :: "string \<rightharpoonup> jsnum"
  headerDiscount :: "string \<rightharpoonup> jsnum"
  headerWriter :: writer
  headersWritten :: nat

definition header_payload :: "env \<Rightarrow> row \<Rightarrow> nat \<Rightarrow> string \<Rightarrow> int \<Rightarrow> payload" where
  "header_payload e r rowIndex invoiceNo invoiceDate =
     [([''invoiceNo''], VStr invoiceNo),
      ([''invoiceDate''], VDate invoiceDate),
      ([''customerNo''], VStr (cleanStr (nullish (ciGet r ''CustomerNo'') (ciGet r ''CustomerNumber'')))),
      ([''arDivisionNo''], VStr (cleanStr (nullish (ciGet r ''ARDivisionNo'') (ciGet r ''DivisionNo'')))),
      ([''salespersonNo''], VStr (header_salespersonNo (ciGet r ''SalespersonNo''))),
      ([''taxAmt''], VNum (parseNumber binary64 (ciGet r ''SalesTaxAmt''))),
      ([''customerPONo''], VStr (cleanStr (ciGet r ''CustomerPONo''))),
      ([''nonTaxableSalesAmt''], VNum (parseNumber binary64 (ciGet r ''NonTaxableSalesAmt''))),
      ([''freightAmt''], VNum (parseNumber binary64 (ciGet r ''FreightAmt''))),
      ([''discountAmt''], VNum (parseNumber binary64 (ciGet r ''DiscountAmt''))),
      ([''comment''], VStr (cleanStr (ciGet r ''Comment''))),
      ([''invoiceType''], VStr (cleanStr (ciGet r ''InvoiceType'')))]
     @ raw_fields r
     @ [([''importedAt''], VServerTimestamp)]
     @ source_fields (env_hhFile e) rowIndex"

text \<open>
  The handler marks the invoice number and remembers freight and discount before it
  calls \<open>headerBatch.set\<close>, so these are kept also when the call throws.
\<close>

definition header_onRow :: "env \<Rightarrow> row \<Rightarrow> nat \<Rightarrow> header_state \<Rightarrow> outcome \<times> header_state" where
  "header_onRow e r rowIndex st =
     (let invoiceNo = cleanStr (ciGet r ''InvoiceNo'') in
      if invoiceNo = [] then (Declined, st)
      else (let invoiceDateRaw = cleanStr (nullish (ciGet r ''InvoiceDate'') (ciGet r ''Date'')) in
            case parseUSDate (Some invoiceDateRaw) of
              None \<Rightarrow> (Declined, st)
            | Some invoiceDate \<Rightarrow>
                if invoiceDate < cutoff e then (Declined, st)
                else (let st1 = st\<lparr>inRangeInvoiceNos := insert invoiceNo (inRangeInvoiceNos st),
                                    headerFreight := (headerFreight st)
                                      (invoiceNo \<mapsto> parseNumber binary64 (ciGet r ''FreightAmt'')),
                                    headerDiscount := (headerDiscount st)
                                      (invoiceNo \<mapsto> parseNumber binary64 (ciGet r ''DiscountAmt''))\<rparr>
                      in case batch_add ([''invoices'', normalizeDocId invoiceNo],
                                         header_payload e r rowIndex invoiceNo invoiceDate)
                                (headerWriter st1) of
                           None \<Rightarrow> (Threw, st1)
                         | Some wr \<Rightarrow>
                             (Kept, st1\<lparr>headerWriter :=
                                          (if env_batchLimit e \<le> batchCount wr
                                           then commit_start wr else wr),
                                        headersWritten := headersWritten st1 + 1\<rparr>))))"

definition header_resumed :: "header_state \<Rightarrow> header_state" where
  "header_resumed st = st\<lparr>headerWriter := commit_done (headerWriter st)\<rparr>"

definition header_init :: header_state where
  "header_init =
     \<lparr>inRangeInvoiceNos = {}, headerFreight = Map.empty, headerDiscount = Map.empty,
      headerWriter = new_writer, headersWritten = 0\<rparr>"

definition header_pass :: "env \<Rightarrow> event list \<Rightarrow> counts \<times> header_state" where
  "header_pass e hhEvents = streamParseCsv (header_onRow e) header_resumed hhEvents header_init"

subsection \<open>Detail pass\<close>

record detail_state =
  merchTotals :: "(string \<times> jsnum) list"
  lineWriter :: writer
  linesWritten :: nat

definition makeLineId :: "string \<Rightarrow> string option \<Rightarrow> nat \<Rightarrow> string" where
  "makeLineId invoiceNo lineKey rowIndex =
     (let k = cleanStr lineKey in
      if k \<noteq> [] then normalizeDocId (invoiceNo @ ''__'' @ k)
      else normalizeDocId (invoiceNo @ ''__'' @ String_nat rowIndex))"

definition lineKey_of :: "row \<Rightarrow> string option" where
  "lineKey_of r =
     nullish (ciGet r ''LineKey'')
       (nullish (ciGet r ''InvoiceLineKey'')
          (nullish (ciGet r ''DetailSeqNo'') (nullish (ciGet r ''LineSeqNo'') (Some []))))"

definition line_payload :: "env \<Rightarrow> row \<Rightarrow> nat \<Rightarrow> string \<Rightarrow> payload" where
  "line_payload e r rowIndex invoiceNo =
     [([''invoiceNo''], VStr invoiceNo),
      ([''itemCode''], VStr (cleanStr (ciGet r ''ItemCode''))),
      ([''itemCodeDesc''], VStr (cleanStr (ciGet r ''ItemCodeDesc''))),
      ([''quantityShipped''], VNum (parseNumber binary64 (ciGet r ''QuantityShipped''))),
      ([''discount''], VNum (parseNumber binary64 (ciGet r ''Discount''))),
      ([''productLine''], VStr (cleanStr (ciGet r ''ProductLine''))),
      ([''aliasItemNo''], VStr (cleanStr (ciGet r ''AliasItemNo''))),
      ([''commentText''], VStr (cleanStr (ciGet r ''CommentText''))),
      ([''unitPrice''], VNum (parseNumber binary64 (ciGet r ''UnitPrice''))),
      ([''extensionAmt''], VNum (parseNumber binary64 (ciGet r ''ExtensionAmt''))),
      ([''warehouseCode''], VStr (cleanStr (ciGet r ''WarehouseCode''))),
      ([''salesAcctKey''], VStr (cleanStr (ciGet r ''SalesAcctKey'')))]
     @ raw_fields r
     @ [([''importedAt''], VServerTimestamp)]
     @ source_fields (env_hdFile e) rowIndex"

definition detail_onRow ::
  "env \<Rightarrow> string set \<Rightarrow> row \<Rightarrow> nat \<Rightarrow> detail_state \<Rightarrow> outcome \<times> detail_state" where
  "detail_onRow e inRange r rowIndex st =
     (let invoiceNo = cleanStr (ciGet r ''InvoiceNo'') in
      if invoiceNo = [] \<or> invoiceNo \<notin> inRange then (Declined, st)
      else if cleanStr (ciGet r ''ItemCode'') = [] \<and> cleanStr (ciGet r ''ItemCodeDesc'') = []
      then (Declined, st)
      else (case batch_add ([''invoices'', normalizeDocId invoiceNo, ''lines'',
                             makeLineId invoiceNo (lineKey_of r) rowIndex],
                            line_payload e r rowIndex invoiceNo)
                   (lineWriter st) of
              None \<Rightarrow> (Threw, st)
            | Some wr \<Rightarrow>
                (Kept,
                 \<lparr>merchTotals = obj_set invoiceNo
                    (js_add binary64 (or_zero (map_of (merchTotals st) invoiceNo))
                       (parseNumber binary64 (ciGet r ''ExtensionAmt'')))
                    (merchTotals st),
                  lineWriter = (if env_batchLimit e \<le> batchCount wr then commit_start wr else wr),
                  linesWritten = linesWritten st + 1\<rparr>)))"

definition detail_resumed :: "detail_state \<Rightarrow> detail_state" where
  "detail_resumed st = st\<lparr>lineWriter := commit_done (lineWriter st)\<rparr>"

definition detail_init :: detail_state where
  "detail_init = \<lparr>merchTotals = [], lineWriter = new_writer, linesWritten = 0\<rparr>"

definition detail_pass :: "env \<Rightarrow> string set \<Rightarrow> event list \<Rightarrow> counts \<times> detail_state" where
  "detail_pass e inRange hdEvents =
     streamParseCsv (detail_onRow e inRange) detail_resumed hdEvents detail_init"

subsection \<open>Totals pass\<close>

definition totals_write ::
  "(string \<rightharpoonup> jsnum) \<Rightarrow> (string \<rightharpoonup> jsnum) \<Rightarrow> string \<times> jsnum \<Rightarrow> doc_write" where
  "totals_write freight discount entry =
     (let invoiceNo = fst entry; merchTotal = snd entry;
          freightAmt = or_zero (freight invoiceNo);
          discountAmt = or_zero (discount invoiceNo)
      in ([''invoices'', normalizeDocId invoiceNo],
          [([''merchTotal''], VNum merchTotal),
           ([''invoiceTotalComputed''],
              VNum (js_sub binary64 (js_add binary64 merchTotal freightAmt) discountAmt)),
           ([''totalsComputedAt''], VServerTimestamp)]))"

definition totals_pass ::
  "env \<Rightarrow> (string \<rightharpoonup> jsnum) \<Rightarrow> (string \<rightharpoonup> jsnum) \<Rightarrow> (string \<times> jsnum) list \<Rightarrow> commit_log" where
  "totals_pass e freight discount totals =
     flush (foldl (\<lambda>wr entry. batch_set (env_batchLimit e) (totals_write freight discount entry) wr)
              new_writer totals)"

subsection \<open>The whole import\<close>

text \<open>
  The three passes in turn. After each streaming pass the batch is committed when its
  counter is not 0; this commits a batch again whose own commit is still in flight.
\<close>

record import_result =
  headerCounts :: counts
  headerKeys :: "string set"
  written_headers :: nat
  lineCounts :: counts
  written_lines :: nat
  totals :: "(string \<times> jsnum) list"
  commit_batches :: commit_log

definition import_invoices :: "env \<Rightarrow> event list \<Rightarrow> event list \<Rightarrow> import_result" where
  "import_invoices e hhEvents hdEvents =
     (let hp = header_pass e hhEvents;
          hs = snd hp;
          dp = detail_pass e (inRangeInvoiceNos hs) hdEvents;
          ds = snd dp
      in \<lparr>headerCounts = fst hp, headerKeys = inRangeInvoiceNos hs,
          written_headers = headersWritten hs,
          lineCounts = fst dp, written_lines = linesWritten ds,
          totals = merchTotals ds,
          commit_batches = flush (headerWriter hs) @ flush (lineWriter ds)
            @ totals_pass e (headerFreight hs) (headerDiscount hs) (merchTotals ds)\<rparr>)"

text \<open>The store after an import that started from the store \<open>s\<close>.\<close>

definition import_store :: "(nat \<Rightarrow> nat) \<Rightarrow> env \<Rightarrow> event list \<Rightarrow> event list \<Rightarrow> store \<Rightarrow> store" where
  "import_store clock e hhEvents hdEvents s =
     server_apply clock (commit_batches (import_invoices e hhEvents hdEvents)) s"

section \<open>Notions used to state the properties\<close>

text \<open>The rows among the events, and the rows with their 1-based indices, as the reader numbers them.\<close>

fun rows_of :: "event list \<Rightarrow> parse_result list" where
  "rows_of [] = []"
| "rows_of (Row results # evs) = results # rows_of evs"
| "rows_of (Idle resolved # evs) = rows_of evs"

definition indexed :: "parse_result list \<Rightarrow> (nat \<times> row) list" where
  "indexed rows = enumerate 1 (map res_data rows)"



text \<open>
  The rows that a handler has kept, with their indices: the rows for which it returned
  true, in the order of their arrival.
\<close>

definition kept_step ::
  "(row \<Rightarrow> nat \<Rightarrow> 's \<Rightarrow> outcome \<times> 's) \<Rightarrow> ('s \<Rightarrow> 's)
   \<Rightarrow> 's reader \<times> (nat \<times> row) list \<Rightarrow> event \<Rightarrow> 's reader \<times> (nat \<times> row) list" where
  "kept_step onRow resumed rk ev =
     (event_step onRow resumed (fst rk) ev,
      (case ev of
         Row results \<Rightarrow>
           (let n = rowCount (rd_counts (fst rk)) + 1; r = res_data results in
            if r \<noteq> [] \<and> fst (onRow r n (rd_state (fst rk))) = Kept then snd rk @ [(n, r)]
            else snd rk)
       | Idle resolved \<Rightarrow> snd rk))"

definition kept_rows ::
  "(row \<Rightarrow> nat \<Rightarrow> 's \<Rightarrow> outcome \<times> 's) \<Rightarrow> ('s \<Rightarrow> 's) \<Rightarrow> event list \<Rightarrow> 's \<Rightarrow> (nat \<times> row) list" where
  "kept_rows onRow resumed events st =
     snd (foldl (kept_step onRow resumed)
            (\<lparr>rd_counts = \<lparr>rowCount = 0, skippedCount = 0, parseErrorCount = 0\<rparr>,
              rd_unsettled = 0, rd_state = st\<rparr>, []) events)"

text \<open>
  A header row passes the filter when it is not empty, has an invoice number, and its date
  parses and is not before the cutoff.
\<close>

definition header_invoiceNo :: "row \<Rightarrow> string" where
  "header_invoiceNo r = cleanStr (ciGet r ''InvoiceNo'')"













text \<open>
  A detail row passes the filter when it is not empty, its invoice number is in the given
  key set, and it has an item code or an item description.
\<close>

definition detail_accepts :: "string set \<Rightarrow> row \<Rightarrow> bool" where
  "detail_accepts K r \<longleftrightarrow>
     r \<noteq> [] \<and> header_invoiceNo r \<noteq> [] \<and> header_invoiceNo r \<in> K
     \<and> (cleanStr (ciGet r ''ItemCode'') \<noteq> [] \<or> cleanStr (ciGet r ''ItemCodeDesc'') \<noteq> [])"

definition accepted_details :: "string set \<Rightarrow> parse_result list \<Rightarrow> (nat \<times> row) list" where
  "accepted_details K rows = filter (\<lambda>ir. detail_accepts K (snd ir)) (indexed rows)"

definition line_path :: "nat \<times> row \<Rightarrow> doc_path" where
  "line_path ir =
     [''invoices'', normalizeDocId (header_invoiceNo (snd ir)), ''lines'',
      makeLineId (header_invoiceNo (snd ir)) (lineKey_of (snd ir)) (fst ir)]"

definition line_write :: "env \<Rightarrow> nat \<times> row \<Rightarrow> doc_write" where
  "line_write e ir = (line_path ir, line_payload e (snd ir) (fst ir) (header_invoiceNo (snd ir)))"

definition detail_run :: "env \<Rightarrow> string set \<Rightarrow> event list \<Rightarrow> detail_state reader" where
  "detail_run e K evs = stream_run (detail_onRow e K) detail_resumed evs detail_init"

definition detail_written :: "env \<Rightarrow> string set \<Rightarrow> event list \<Rightarrow> (nat \<times> row) list" where
  "detail_written e K evs = kept_rows (detail_onRow e K) detail_resumed evs detail_init"

definition detail_busy :: "env \<Rightarrow> string set \<Rightarrow> event list \<Rightarrow> bool" where
  "detail_busy e K evs \<longleftrightarrow> committed (lineWriter (rd_state (detail_run e K evs)))"

fun detail_calm_rev :: "env \<Rightarrow> string set \<Rightarrow> event list \<Rightarrow> bool" where
  "detail_calm_rev e K [] = True"
| "detail_calm_rev e K (Idle resolved # before) = detail_calm_rev e K before"
| "detail_calm_rev e K (Row results # before) =
     (detail_calm_rev e K before
      \<and> (detail_accepts K (res_data results) \<longrightarrow> \<not> detail_busy e K (rev before)))"

definition detail_calm :: "env \<Rightarrow> string set \<Rightarrow> event list \<Rightarrow> bool" where
  "detail_calm e K evs = detail_calm_rev e K (rev evs)"

text \<open>The extension amounts of the written detail rows of one invoice, in file order.\<close>

definition extensionAmt :: "row \<Rightarrow> jsnum" where
  "extensionAmt r = parseNumber binary64 (ciGet r ''ExtensionAmt'')"

definition line_amounts :: "(nat \<times> row) list \<Rightarrow> string \<Rightarrow> jsnum list" where
  "line_amounts ks k =
     map (\<lambda>ir. extensionAmt (snd ir)) (filter (\<lambda>ir. header_invoiceNo (snd ir) = k) ks)"

text \<open>The sum of a list of numbers, added from the left as the importer adds them.\<close>

definition js_sum :: "rounding \<Rightarrow> jsnum list \<Rightarrow> jsnum" where
  "js_sum rnd xs = foldl (js_add rnd) (Fin 0) xs"

definition fin_val :: "jsnum \<Rightarrow> rat" where
  "fin_val x = (case x of Fin q \<Rightarrow> q | _ \<Rightarrow> 0)"

text \<open>The sum of every prefix of the numbers \<open>xs\<close> is a double, so that no addition rounds.\<close>

definition sums_exact :: "rounding \<Rightarrow> jsnum list \<Rightarrow> bool" where
  "sums_exact rnd xs \<longleftrightarrow>
     list_all (\<lambda>n. rnd (sum_list (map fin_val (take n xs))) = Fin (sum_list (map fin_val (take n xs))))
       [0..<Suc (length xs)]"


text \<open>
  The writes that a writer has taken so far, in order, and the relation between the
  counter, the batch and the batches sent that the writer maintains.
\<close>

definition held :: "writer \<Rightarrow> doc_write list" where
  "held wr = concat (sent wr) @ (if committed wr then [] else batch wr)"

definition writer_ok :: "writer \<Rightarrow> bool" where
  "writer_ok wr \<longleftrightarrow>
     batchCount wr = length (batch wr)
     \<and> (committed wr \<longrightarrow> batch wr \<noteq> [] \<and> sent wr \<noteq> [] \<and> last (sent wr) = batch wr)"



text \<open>The running totals after the written detail rows.\<close>

definition add_total :: "(string \<times> jsnum) list \<Rightarrow> nat \<times> row \<Rightarrow> (string \<times> jsnum) list" where
  "add_total t ir =
     obj_set (header_invoiceNo (snd ir))
       (js_add binary64 (or_zero (map_of t (header_invoiceNo (snd ir)))) (extensionAmt (snd ir))) t"

definition totals_of :: "(nat \<times> row) list \<Rightarrow> (string \<times> jsnum) list" where
  "totals_of ks = foldl add_total [] ks"

text \<open>
  The writes of a list of batches as the store applies them, the first batch at commit
  number \<open>n\<close>.
\<close>

definition stamped :: "(nat \<Rightarrow> nat) \<Rightarrow> nat \<Rightarrow> commit_log \<Rightarrow> doc_write list" where
  "stamped clock n batches =
     concat (map (\<lambda>nb. map (stamp (clock (fst nb))) (snd nb)) (enumerate n batches))"

text \<open>
  The fields that a list of writes leaves in the document at a path: later writes override
  earlier ones.
\<close>

definition doc_or_empty :: "document option \<Rightarrow> document" where
  "doc_or_empty d = (case d of None \<Rightarrow> Map.empty | Some x \<Rightarrow> x)"

definition written_fields :: "doc_write list \<Rightarrow> doc_path \<Rightarrow> document" where
  "written_fields ws p =
     foldl (\<lambda>m w. if fst w = p then m ++ map_of (snd w) else m) Map.empty ws"

text \<open>The document and the field names of a write.\<close>

definition shape :: "doc_write \<Rightarrow> doc_path \<times> field_path list" where
  "shape w = (fst w, map fst (snd w))"








definition hd_noitem :: row where
  "hd_noitem = [(''InvoiceNo'', ''INV1''), (''ItemCode'', ''''), (''ExtensionAmt'', ''3'')]"

definition hd_future :: row where
  "hd_future = [(''InvoiceNo'', ''INV9''), (''ItemCode'', ''K1''), (''ExtensionAmt'', ''7'')]"

definition hd_line1 :: row where
  "hd_line1 = [(''InvoiceNo'', ''INV1''), (''LineKey'', ''1''), (''ItemCode'', ''K1''),
               (''ExtensionAmt'', ''10.50'')]"

definition hd_line2 :: row where
  "hd_line2 = [(''InvoiceNo'', ''INV1''), (''LineKey'', ''2''), (''ItemCode'', ''K2''),
               (''ExtensionAmt'', ''$25,00'')]"

definition hd_inv2 :: row where
  "hd_inv2 = [(''InvoiceNo'', ''INV2''), (''LineKey'', ''1''), (''ItemCode'', ''K1''),
              (''ExtensionAmt'', ''4'')]"

definition hd_dime :: row where
  "hd_dime = [(''InvoiceNo'', ''INV1''), (''LineKey'', ''1''), (''ItemCode'', ''K1''),
              (''ExtensionAmt'', ''0.10'')]"

definition hd_fifth :: row where
  "hd_fifth = [(''InvoiceNo'', ''INV1''), (''LineKey'', ''2''), (''ItemCode'', ''K2''),
               (''ExtensionAmt'', ''0.20'')]"

section \<open>Properties\<close>

lemma tier_cases: "t = TierA \<or> t = TierB \<or> t = TierC \<or> t = TierD"
  by (cases t) simp_all

lemma tier_range: "range tierFromSales25 = {TierA, TierB, TierC, TierD}"
proof -
  have "tierFromSales25 (Fin 10000) = TierA" "tierFromSales25 (Fin 5000) = TierB"
    "tierFromSales25 (Fin 2000) = TierC" "tierFromSales25 (Fin 0) = TierD"
    by (simp_all add: tierFromSales25_def)
  then have "{TierA, TierB, TierC, TierD} \<subseteq> range tierFromSales25"
    by (metis empty_subsetI insert_subset rangeI)
  moreover have "range tierFromSales25 \<subseteq> {TierA, TierB, TierC, TierD}"
    using tier_cases by auto
  ultimately show ?thesis by blast
qed

text \<open>
  Claim C4. \<open>tierFromSales25\<close> is a total function of the trailing-sales value onto exactly
  the four bands, and each band is closed at its lower bound: a finite value of at least
  10000 (and plus infinity) is in band A, a value in [5000, 10000) in band B, a value in
  [2000, 5000) in band C, a value below 2000 in band D.
\<close>

theorem tierFromSales25_bands:
  "range tierFromSales25 = {TierA, TierB, TierC, TierD}
   \<and> (js_ge v (Fin 10000) \<longrightarrow> tierFromSales25 v = TierA)
   \<and> (js_ge v (Fin 5000) \<and> js_lt v (Fin 10000) \<longrightarrow> tierFromSales25 v = TierB)
   \<and> (js_ge v (Fin 2000) \<and> js_lt v (Fin 5000) \<longrightarrow> tierFromSales25 v = TierC)
   \<and> (js_lt v (Fin 2000) \<longrightarrow> tierFromSales25 v = TierD)
   \<and> (10000 \<le> x \<longrightarrow> tierFromSales25 (Fin x) = TierA)
   \<and> (5000 \<le> x \<and> x < 10000 \<longrightarrow> tierFromSales25 (Fin x) = TierB)
   \<and> (2000 \<le> x \<and> x < 5000 \<longrightarrow> tierFromSales25 (Fin x) = TierC)
   \<and> (x < 2000 \<longrightarrow> tierFromSales25 (Fin x) = TierD)"
proof -
  have "js_ge v (Fin 10000) \<longrightarrow> tierFromSales25 v = TierA"
    by (simp add: tierFromSales25_def)
  moreover have "js_ge v (Fin 5000) \<and> js_lt v (Fin 10000) \<longrightarrow> tierFromSales25 v = TierB"
    by (cases v) (simp_all add: tierFromSales25_def)
  moreover have "js_ge v (Fin 2000) \<and> js_lt v (Fin 5000) \<longrightarrow> tierFromSales25 v = TierC"
    by (cases v) (simp_all add: tierFromSales25_def)
  moreover have "js_lt v (Fin 2000) \<longrightarrow> tierFromSales25 v = TierD"
    by (cases v) (simp_all add: tierFromSales25_def)
  moreover have "10000 \<le> x \<longrightarrow> tierFromSales25 (Fin x) = TierA"
    "5000 \<le> x \<and> x < 10000 \<longrightarrow> tierFromSales25 (Fin x) = TierB"
    "2000 \<le> x \<and> x < 5000 \<longrightarrow> tierFromSales25 (Fin x) = TierC"
    "x < 2000 \<longrightarrow> tierFromSales25 (Fin x) = TierD"
    by (simp_all add: tierFromSales25_def)
  ultimately show ?thesis using tier_range by blast
qed

theorem tierFromSales25_bands_witness:
  "tierFromSales25 (Fin 10000) = TierA
   \<and> tierFromSales25 (Fin (999999 / 100)) = TierB
   \<and> tierFromSales25 (Fin 2000) = TierC
   \<and> tierFromSales25 (Fin 0) = TierD
   \<and> tierFromSales25 PosInf = TierA
   \<and> tierFromSales25 NegInf = TierD"
proof -
  have "tierFromSales25 (Fin 10000) = TierA"
    using tierFromSales25_bands [of "Fin 10000" 10000] by simp
  moreover have "tierFromSales25 (Fin (999999 / 100)) = TierB"
    using tierFromSales25_bands [of "Fin (999999 / 100)" "999999 / 100"] by simp
  moreover have "tierFromSales25 (Fin 2000) = TierC"
    using tierFromSales25_bands [of "Fin 2000" 2000] by simp
  moreover have "tierFromSales25 (Fin 0) = TierD"
    using tierFromSales25_bands [of "Fin 0" 0] by simp
  moreover have "tierFromSales25 PosInf = TierA"
    using tierFromSales25_bands [of PosInf 0] by simp
  moreover have "tierFromSales25 NegInf = TierD"
    using tierFromSales25_bands [of NegInf 0] by simp
  ultimately show ?thesis by blast
qed

lemma commitWithRetry_trace:
  "waits (commitWithRetry tr out a) = map (\<lambda>k. 250 * k * k) [a ..< a + length (waits (commitWithRetry tr out a))]
   \<and> commits (commitWithRetry tr out a) = Suc (length (waits (commitWithRetry tr out a)))
   \<and> (\<forall>k. a \<le> k \<and> k < a + length (waits (commitWithRetry tr out a))
         \<longrightarrow> k \<le> 6 \<and> (\<exists>m. out k = Some m \<and> tr m))
   \<and> thrown (commitWithRetry tr out a) = out (a + length (waits (commitWithRetry tr out a)))
   \<and> (\<forall>m. out (a + length (waits (commitWithRetry tr out a))) = Some m
         \<longrightarrow> 6 < a + length (waits (commitWithRetry tr out a)) \<or> \<not> tr m)"
proof (induction tr out a rule: commitWithRetry.induct)
  case (1 tr out a)
  show ?case
  proof (cases "out a")
    case None
    then show ?thesis by (auto simp add: commitWithRetry.simps [of tr out a])
  next
    case (Some msg)
    show ?thesis
    proof (cases "a \<le> 6 \<and> tr msg")
      case False
      with Some show ?thesis by (auto simp add: commitWithRetry.simps [of tr out a])
    next
      case True
      note IH = "1.IH" [OF Some True]
      let ?r = "commitWithRetry tr out (a + 1)"
      have eq: "commitWithRetry tr out a
                 = ?r\<lparr>waits := (250 * a * a) # waits ?r, commits := Suc (commits ?r)\<rparr>"
        using Some True by (simp add: commitWithRetry.simps [of tr out a] Let_def)
      have len: "a + length (waits (commitWithRetry tr out a)) = a + 1 + length (waits ?r)"
        by (simp add: eq)
      have w: "waits (commitWithRetry tr out a) = (250 * a * a) # waits ?r"
        by (simp add: eq)
      note IH1 = IH [THEN conjunct1, symmetric]
      note IH2 = IH [THEN conjunct2, THEN conjunct1]
      note IH3 = IH [THEN conjunct2, THEN conjunct2, THEN conjunct1]
      note IH4 = IH [THEN conjunct2, THEN conjunct2, THEN conjunct2, THEN conjunct1]
      note IH5 = IH [THEN conjunct2, THEN conjunct2, THEN conjunct2, THEN conjunct2]
      have lt: "a < a + 1 + length (waits ?r)" by simp
      have u: "[a ..< a + 1 + length (waits ?r)] = a # [Suc a ..< a + 1 + length (waits ?r)]"
        by (rule upt_conv_Cons [OF lt])
      have sa: "Suc a = a + 1" by simp
      have rhs: "map (\<lambda>k. 250 * k * k) [a ..< a + 1 + length (waits ?r)] = (250 * a * a) # waits ?r"
        unfolding u list.map sa IH1 by (rule refl)
      have c1: "waits (commitWithRetry tr out a)
           = map (\<lambda>k. 250 * k * k) [a ..< a + length (waits (commitWithRetry tr out a))]"
        by (subst len, subst w, rule rhs [symmetric])
      have c2: "commits (commitWithRetry tr out a) = Suc (length (waits (commitWithRetry tr out a)))"
        using IH2 by (simp add: eq)
      have c3: "\<forall>k. a \<le> k \<and> k < a + length (waits (commitWithRetry tr out a))
         \<longrightarrow> k \<le> 6 \<and> (\<exists>m. out k = Some m \<and> tr m)"
      proof (intro allI impI)
        fix k assume k: "a \<le> k \<and> k < a + length (waits (commitWithRetry tr out a))"
        show "k \<le> 6 \<and> (\<exists>m. out k = Some m \<and> tr m)"
        proof (cases "k = a")
          case True
          then show ?thesis using Some \<open>a \<le> 6 \<and> tr msg\<close> by simp
        next
          case False
          then have "a + 1 \<le> k \<and> k < a + 1 + length (waits ?r)" using k len by simp
          then show ?thesis using IH3 by blast
        qed
      qed
      have c4: "thrown (commitWithRetry tr out a) = out (a + length (waits (commitWithRetry tr out a)))"
        using IH4 unfolding len by (simp add: eq)
      have c5: "\<forall>m. out (a + length (waits (commitWithRetry tr out a))) = Some m
         \<longrightarrow> 6 < a + length (waits (commitWithRetry tr out a)) \<or> \<not> tr m"
        using IH5 unfolding len by blast
      show ?thesis using c1 c2 c3 c4 c5 by blast
    qed
  qed
qed

lemma retries_bounded: "length (waits (commitWithRetry tr out (Suc 0))) \<le> 6"
proof (rule ccontr)
  assume "\<not> ?thesis"
  then have "Suc 0 \<le> 7 \<and> 7 < Suc 0 + length (waits (commitWithRetry tr out (Suc 0)))" by simp
  then have "(7::nat) \<le> 6" using commitWithRetry_trace [of tr out "Suc 0"] by blast
  then show False by simp
qed

text \<open>
  Claim C6. Started at attempt 1, \<open>commitWithRetry\<close> retries at most 6 times (at most 7
  commits); the wait before the retry that follows attempt \<open>k\<close> is \<open>250 * k * k\<close>
  milliseconds; every retry follows a failure with a transient signature; the caller gets
  the outcome of the last commit, and an error reaches the caller only when it is not
  transient or when 6 retries have been made; a first failure that is not transient is
  thrown at once, with no wait and no second commit.
\<close>

theorem commitWithRetry_policy:
  fixes tr :: "string \<Rightarrow> bool" and out :: "nat \<Rightarrow> string option"
  defines "r \<equiv> commitWithRetry tr out 1"
  shows "length (waits r) \<le> 6
    \<and> commits r = Suc (length (waits r))
    \<and> waits r = map (\<lambda>k. 250 * k * k) [1 ..< Suc (length (waits r))]
    \<and> (\<forall>k. 1 \<le> k \<and> k \<le> length (waits r) \<longrightarrow> (\<exists>m. out k = Some m \<and> tr m))
    \<and> thrown r = out (Suc (length (waits r)))
    \<and> (\<forall>m. out (Suc (length (waits r))) = Some m \<longrightarrow> length (waits r) = 6 \<or> \<not> tr m)
    \<and> (\<forall>m. out 1 = Some m \<and> \<not> tr m \<longrightarrow> r = \<lparr>thrown = Some m, waits = [], commits = 1\<rparr>)"
proof -
  note T = commitWithRetry_trace [of tr out "Suc 0"]
  have r: "r = commitWithRetry tr out (Suc 0)" by (simp add: r_def)
  have b: "length (waits r) \<le> 6" unfolding r by (rule retries_bounded)
  have c: "commits r = Suc (length (waits r))"
    unfolding r by (rule T [THEN conjunct2, THEN conjunct1])
  have "waits r = map (\<lambda>k. 250 * k * k) [Suc 0 ..< Suc 0 + length (waits r)]"
    unfolding r by (rule T [THEN conjunct1])
  then have w: "waits r = map (\<lambda>k. 250 * k * k) [1 ..< Suc (length (waits r))]"
    by (simp only: One_nat_def plus_nat.add_Suc plus_nat.add_0)
  have "\<forall>k. Suc 0 \<le> k \<and> k < Suc 0 + length (waits r)
         \<longrightarrow> k \<le> 6 \<and> (\<exists>m. out k = Some m \<and> tr m)"
    unfolding r by (rule T [THEN conjunct2, THEN conjunct2, THEN conjunct1])
  then have t: "\<forall>k. 1 \<le> k \<and> k \<le> length (waits r) \<longrightarrow> (\<exists>m. out k = Some m \<and> tr m)"
    by auto
  have "thrown r = out (Suc 0 + length (waits r))"
    unfolding r by (rule T [THEN conjunct2, THEN conjunct2, THEN conjunct2, THEN conjunct1])
  then have l: "thrown r = out (Suc (length (waits r)))" by simp
  have "\<forall>m. out (Suc 0 + length (waits r)) = Some m \<longrightarrow> 6 < Suc 0 + length (waits r) \<or> \<not> tr m"
    unfolding r by (rule T [THEN conjunct2, THEN conjunct2, THEN conjunct2, THEN conjunct2])
  then have f: "\<forall>m. out (Suc (length (waits r))) = Some m \<longrightarrow> length (waits r) = 6 \<or> \<not> tr m"
    using b by auto
  have n: "\<forall>m. out 1 = Some m \<and> \<not> tr m \<longrightarrow> r = \<lparr>thrown = Some m, waits = [], commits = 1\<rparr>"
    by (simp add: r commitWithRetry.simps [of tr out "Suc 0"])
  show ?thesis using b c w t l f n by blast
qed

theorem commitWithRetry_policy_witness:
  "commitWithRetry transient_import fails_twice 1
     = \<lparr>thrown = None, waits = [250, 1000], commits = 3\<rparr>
   \<and> commitWithRetry transient_index always_exhausted 1
     = \<lparr>thrown = Some ''8 RESOURCE_EXHAUSTED: quota exceeded'',
        waits = [250, 1000, 2250, 4000, 6250, 9000], commits = 7\<rparr>
   \<and> commitWithRetry transient_import permission_denied 1
     = \<lparr>thrown = Some ''7 PERMISSION_DENIED: missing permissions'', waits = [], commits = 1\<rparr>
   \<and> (\<exists>m. fails_twice 2 = Some m \<and> transient_import m)
   \<and> \<not> transient_import ''7 PERMISSION_DENIED: missing permissions''"
proof -
  have a: "commitWithRetry transient_import fails_twice 1
     = \<lparr>thrown = None, waits = [250, 1000], commits = 3\<rparr>"
    by (simp add: commitWithRetry.simps fails_twice_def transient_import_def)
  have b: "commitWithRetry transient_index always_exhausted 1
     = \<lparr>thrown = Some ''8 RESOURCE_EXHAUSTED: quota exceeded'',
        waits = [250, 1000, 2250, 4000, 6250, 9000], commits = 7\<rparr>"
    by (simp add: commitWithRetry.simps always_exhausted_def transient_index_def)
  have n: "\<not> transient_import ''7 PERMISSION_DENIED: missing permissions''"
    by (simp add: transient_import_def)
  have p: "permission_denied 1 = Some ''7 PERMISSION_DENIED: missing permissions''"
    by (simp add: permission_denied_def)
  have c: "commitWithRetry transient_import permission_denied 1
     = \<lparr>thrown = Some ''7 PERMISSION_DENIED: missing permissions'', waits = [], commits = 1\<rparr>"
    using commitWithRetry_policy [of transient_import permission_denied] n p by blast
  have "(1::nat) \<le> 2 \<and> 2 \<le> length (waits (commitWithRetry transient_import fails_twice 1))"
    unfolding a by simp
  then have d: "\<exists>m. fails_twice 2 = Some m \<and> transient_import m"
    using commitWithRetry_policy [of transient_import fails_twice] by blast
  show ?thesis using a b c d n by blast
qed

subsection \<open>Trimming and padding\<close>

lemma digit_not_space: "is_digit c \<Longrightarrow> \<not> is_space c"
  by (auto simp add: is_digit_def is_space_def)

lemma slash_not_digit: "\<not> is_digit CHR ''/''"
  by (simp add: is_digit_def)

lemma dropWhile_hd_id: "s = [] \<or> \<not> P (hd s) \<Longrightarrow> dropWhile P s = s"
  by (cases s) auto

lemma trim_id: "s = [] \<or> (\<not> is_space (hd s) \<and> \<not> is_space (last s)) \<Longrightarrow> trim s = s"
proof -
  assume a: "s = [] \<or> (\<not> is_space (hd s) \<and> \<not> is_space (last s))"
  then have 1: "dropWhile is_space s = s" by (intro dropWhile_hd_id) auto
  from a have "rev s = [] \<or> \<not> is_space (hd (rev s))" by (auto simp add: hd_rev)
  then have 2: "dropWhile is_space (rev s) = rev s" by (rule dropWhile_hd_id)
  show ?thesis by (simp add: trim_def 1 2)
qed

lemma numeric_trim: "numeric_looking s \<Longrightarrow> trim s = s"
proof -
  assume n: "numeric_looking s"
  then have "s \<noteq> []" and all: "\<forall>c\<in>set s. is_digit c"
    by (auto simp add: numeric_looking_def list_all_iff)
  then have "is_digit (hd s)" "is_digit (last s)" by auto
  then show ?thesis using trim_id digit_not_space by blast
qed

lemma numeric_pad: "numeric_looking s \<Longrightarrow> numeric_looking (padStart0 4 s)"
  by (auto simp add: numeric_looking_def padStart0_def list_all_iff is_digit_def)

lemma nat_of_digits_zeros: "foldl (\<lambda>n c. 10 * n + digit_val c) 0 (replicate k CHR ''0'') = 0"
  by (induction k) (simp_all add: digit_val_def)

lemma nat_of_digits_pad: "nat_of_digits (padStart0 n s) = nat_of_digits s"
  by (simp add: nat_of_digits_def padStart0_def nat_of_digits_zeros)

lemma padStart0_same: "padStart0 n s = s \<longleftrightarrow> n \<le> length s"
  by (auto simp add: padStart0_def)

lemma padStart0_length: "n \<le> length (padStart0 n s)"
  by (simp add: padStart0_def)

lemma padSalesperson_numeric: "numeric_looking s \<Longrightarrow> padSalesperson (Some s) = padStart0 4 s"
  using numeric_trim [of s]
  by (auto simp add: padSalesperson_def cleanStr_def numeric_looking_def padStart0_def)

lemma normRep_numeric: "numeric_looking s \<Longrightarrow> normRep (Some s) = padStart0 4 s"
proof -
  assume n: "numeric_looking s"
  then have f: "filter is_digit s = s" by (simp add: numeric_looking_def list_all_iff)
  from n have "s \<noteq> []" by (simp add: numeric_looking_def)
  then show ?thesis using numeric_trim [OF n] f by (simp add: normRep_def)
qed

lemma header_salespersonNo_numeric:
  "numeric_looking s \<Longrightarrow> header_salespersonNo (Some s) = padStart0 4 s"
  using numeric_trim [of s] by (simp add: header_salespersonNo_def cleanStr_def)

lemma padSalesperson_same:
  "padSalesperson v = cleanStr v \<longleftrightarrow> cleanStr v = [] \<or> 4 \<le> length (cleanStr v)"
  by (auto simp add: padSalesperson_def Let_def padStart0_same)

lemma normRep_length: "cleanStr v \<noteq> [] \<Longrightarrow> 4 \<le> length (normRep v)"
  by (auto simp add: normRep_def cleanStr_def Let_def padStart0_length split: option.splits)

lemma padSalesperson_length: "cleanStr v \<noteq> [] \<Longrightarrow> 4 \<le> length (padSalesperson v)"
  by (auto simp add: padSalesperson_def Let_def padStart0_length)

lemma normRep_eq:
  "normRep v =
     (if cleanStr v = [] then []
      else if filter is_digit (cleanStr v) = []
      then replicate (4 - length (cleanStr v)) CHR ''0'' @ cleanStr v
      else replicate (4 - length (filter is_digit (cleanStr v))) CHR ''0''
             @ filter is_digit (cleanStr v))"
  by (cases v) (simp_all add: normRep_def cleanStr_def Let_def padStart0_def trim_def)

lemma padSalesperson_eq:
  "padSalesperson v =
     (if cleanStr v = [] then []
      else replicate (4 - length (cleanStr v)) CHR ''0'' @ cleanStr v)"
  by (simp add: padSalesperson_def Let_def padStart0_def)

text \<open>
  Claim C8, as the code has it. Every padder trims the identifier and left-pads it with
  zeros to width 4, whether it looks numeric or not: \<open>padSalesperson\<close> and the header
  payload put \<open>4 - length\<close> zeros in front of the trimmed identifier (none when it has 4
  characters or more), except that \<open>padSalesperson\<close> leaves the empty identifier empty
  and the header payload turns it into \<open>0000\<close>; \<open>normRep\<close> does the same to the digits of
  the identifier when it has any, and to the trimmed identifier otherwise. So an
  identifier comes back unchanged exactly when its trimmed form is 4 characters or longer
  (or empty, for \<open>padSalesperson\<close>). On a numeric-looking identifier the three agree, and
  the result is numeric-looking with the same value: \<open>"7"\<close> and \<open>"0007"\<close> both give
  \<open>"0007"\<close>.
\<close>

theorem padIdentifier_left_pads:
  "padSalesperson v =
     (if cleanStr v = [] then []
      else replicate (4 - length (cleanStr v)) CHR ''0'' @ cleanStr v)
   \<and> header_salespersonNo v = replicate (4 - length (cleanStr v)) CHR ''0'' @ cleanStr v
   \<and> normRep v =
     (if cleanStr v = [] then []
      else if filter is_digit (cleanStr v) = []
      then replicate (4 - length (cleanStr v)) CHR ''0'' @ cleanStr v
      else replicate (4 - length (filter is_digit (cleanStr v))) CHR ''0''
             @ filter is_digit (cleanStr v))
   \<and> (padSalesperson v = cleanStr v \<longleftrightarrow> cleanStr v = [] \<or> 4 \<le> length (cleanStr v))
   \<and> (header_salespersonNo v = cleanStr v \<longleftrightarrow> 4 \<le> length (cleanStr v))
   \<and> (numeric_looking s \<longrightarrow>
         cleanStr (Some s) = s
       \<and> padSalesperson (Some s) = replicate (4 - length s) CHR ''0'' @ s
       \<and> normRep (Some s) = replicate (4 - length s) CHR ''0'' @ s
       \<and> header_salespersonNo (Some s) = replicate (4 - length s) CHR ''0'' @ s
       \<and> numeric_looking (replicate (4 - length s) CHR ''0'' @ s)
       \<and> nat_of_digits (replicate (4 - length s) CHR ''0'' @ s) = nat_of_digits s)
   \<and> padSalesperson (Some ''7'') = ''0007'' \<and> padSalesperson (Some ''0007'') = ''0007''
   \<and> normRep (Some ''7'') = ''0007'' \<and> normRep (Some ''0007'') = ''0007''
   \<and> header_salespersonNo (Some ''7'') = ''0007''
   \<and> header_salespersonNo (Some ''0007'') = ''0007''"
proof -
  have h: "header_salespersonNo v = replicate (4 - length (cleanStr v)) CHR ''0'' @ cleanStr v"
    by (simp add: header_salespersonNo_def padStart0_def)
  have b: "header_salespersonNo v = cleanStr v \<longleftrightarrow> 4 \<le> length (cleanStr v)"
    by (simp add: header_salespersonNo_def padStart0_same)
  have n: "numeric_looking s \<longrightarrow>
         cleanStr (Some s) = s
       \<and> padSalesperson (Some s) = replicate (4 - length s) CHR ''0'' @ s
       \<and> normRep (Some s) = replicate (4 - length s) CHR ''0'' @ s
       \<and> header_salespersonNo (Some s) = replicate (4 - length s) CHR ''0'' @ s
       \<and> numeric_looking (replicate (4 - length s) CHR ''0'' @ s)
       \<and> nat_of_digits (replicate (4 - length s) CHR ''0'' @ s) = nat_of_digits s"
    using padSalesperson_numeric [of s] normRep_numeric [of s]
      header_salespersonNo_numeric [of s] numeric_pad [of s] nat_of_digits_pad [of 4 s]
      numeric_trim [of s]
    by (simp add: padStart0_def cleanStr_def)
  have c: "padSalesperson (Some ''7'') = ''0007''" "padSalesperson (Some ''0007'') = ''0007''"
    "normRep (Some ''7'') = ''0007''" "normRep (Some ''0007'') = ''0007''"
    "header_salespersonNo (Some ''7'') = ''0007''"
    "header_salespersonNo (Some ''0007'') = ''0007''"
    by (simp_all add: padSalesperson_def normRep_def header_salespersonNo_def cleanStr_def
        trim_def is_space_def is_digit_def padStart0_def eval_nat_numeral)
  show ?thesis
    using padSalesperson_eq [of v] h normRep_eq [of v] padSalesperson_same [of v] b n c
    by blast
qed

theorem padIdentifier_left_pads_witness:
  "numeric_looking ''42''
   \<and> padSalesperson (Some ''42'') = ''0042'' \<and> normRep (Some ''42'') = ''0042''
   \<and> header_salespersonNo (Some ''42'') = ''0042''
   \<and> nat_of_digits ''0042'' = nat_of_digits ''42''
   \<and> normRep (Some ''A7'') = ''0007'' \<and> padSalesperson (Some ''A7'') = ''00A7''"
proof -
  have n: "numeric_looking ''42''" by (simp add: numeric_looking_def is_digit_def)
  have r: "replicate (4 - length ''42'') CHR ''0'' @ ''42'' = ''0042''"
    by (simp add: eval_nat_numeral)
  have c: "cleanStr (Some ''A7'') = ''A7''" by (simp add: cleanStr_def trim_def is_space_def)
  have d: "filter is_digit ''A7'' = ''7''" by (simp add: is_digit_def)
  have r2: "replicate (4 - length ''7'') CHR ''0'' @ ''7'' = ''0007''"
    "replicate (4 - length ''A7'') CHR ''0'' @ ''A7'' = ''00A7''"
    by (simp_all add: eval_nat_numeral)
  show ?thesis
    using padIdentifier_left_pads [of "Some ''A7''" "''42''"] n r c d r2 by simp
qed

theorem padIdentifier_unchanged_counterexample:
  "\<not> numeric_looking ''AB''
   \<and> \<not> (padSalesperson (Some ''AB'') = ''AB'')
   \<and> \<not> (normRep (Some ''AB'') = ''AB'')
   \<and> \<not> (header_salespersonNo (Some ''AB'') = ''AB'')
   \<and> padSalesperson (Some ''AB'') = ''00AB''"
  by (simp add: numeric_looking_def is_digit_def padSalesperson_def normRep_def
      header_salespersonNo_def cleanStr_def trim_def is_space_def padStart0_def eval_nat_numeral)

subsection \<open>Fixed-format dates\<close>

lemma match_us_date_sound:
  assumes "match_us_date s = Some (m, d, y)"
  shows "us_date_shape s m d y"
proof -
  let ?r1 = "dropWhile is_digit s"
  let ?r2 = "dropWhile is_digit (tl ?r1)"
  from assms have m: "m = takeWhile is_digit s"
    and lm: "length m = 1 \<or> length m = 2" and r1: "?r1 \<noteq> []" "hd ?r1 = CHR ''/''"
    and d: "d = takeWhile is_digit (tl ?r1)"
    and ld: "length d = 1 \<or> length d = 2" and r2: "?r2 \<noteq> []" "hd ?r2 = CHR ''/''"
    and y: "y = tl ?r2" and ly: "length y = 4" "list_all is_digit y"
    by (auto simp add: match_us_date_def Let_def split: if_splits)
  have "s = m @ ?r1" by (simp add: m)
  also have "?r1 = CHR ''/'' # tl ?r1" using r1 by (cases ?r1) auto
  also have "tl ?r1 = d @ ?r2" by (simp add: d)
  also have "?r2 = CHR ''/'' # y" using r2 y by (cases ?r2) auto
  finally have s: "s = m @ ''/'' @ d @ ''/'' @ y" by simp
  have "list_all is_digit m" "list_all is_digit d"
    unfolding m d list_all_iff using set_takeWhileD by fastforce+
  with s lm ld ly show ?thesis by (simp add: us_date_shape_def)
qed

lemma takeWhile_digits_slash:
  "list_all is_digit m \<Longrightarrow> takeWhile is_digit (m @ CHR ''/'' # r) = m"
  by (induction m) (simp_all add: slash_not_digit)

lemma dropWhile_digits_slash:
  "list_all is_digit m \<Longrightarrow> dropWhile is_digit (m @ CHR ''/'' # r) = CHR ''/'' # r"
  by (induction m) (simp_all add: slash_not_digit)

lemma match_us_date_complete:
  assumes "us_date_shape s m d y"
  shows "match_us_date s = Some (m, d, y)"
proof -
  from assms have s: "s = m @ CHR ''/'' # (d @ CHR ''/'' # y)"
    and dm: "list_all is_digit m" and lm: "length m = 1 \<or> length m = 2"
    and dd: "list_all is_digit d" and ld: "length d = 1 \<or> length d = 2"
    and dy: "list_all is_digit y" and ly: "length y = 4"
    by (simp_all add: us_date_shape_def)
  have 1: "takeWhile is_digit s = m" "dropWhile is_digit s = CHR ''/'' # (d @ CHR ''/'' # y)"
    unfolding s using dm by (rule takeWhile_digits_slash, rule dropWhile_digits_slash)
  have 2: "takeWhile is_digit (d @ CHR ''/'' # y) = d"
    "dropWhile is_digit (d @ CHR ''/'' # y) = CHR ''/'' # y"
    using dd by (rule takeWhile_digits_slash, rule dropWhile_digits_slash)
  show ?thesis using lm ld ly dy by (simp add: match_us_date_def 1 2 Let_def)
qed

lemma match_us_date_iff: "match_us_date s = Some (m, d, y) \<longleftrightarrow> us_date_shape s m d y"
  using match_us_date_sound match_us_date_complete by blast

lemma parseUSDate_None_iff:
  "parseUSDate v = None \<longleftrightarrow>
     \<not> (\<exists>m d y. us_date_shape (cleanStr v) m d y
          \<and> nat_of_digits m \<noteq> 0 \<and> nat_of_digits d \<noteq> 0 \<and> nat_of_digits y \<noteq> 0)"
proof (cases "match_us_date (cleanStr v)")
  case None
  then have "\<And>m d y. \<not> us_date_shape (cleanStr v) m d y"
    using match_us_date_complete by fastforce
  with None show ?thesis by (simp add: parseUSDate_def)
next
  case (Some t)
  obtain m d y where t: "t = (m, d, y)" by (cases t) auto
  have u: "us_date_shape (cleanStr v) m' d' y' \<longleftrightarrow> m' = m \<and> d' = d \<and> y' = y" for m' d' y'
    unfolding match_us_date_iff [symmetric] Some t by auto
  show ?thesis using Some t by (auto simp add: parseUSDate_def Let_def u)
qed

lemma parseUSDate_Some:
  "us_date_shape (cleanStr v) m d y \<and> nat_of_digits m \<noteq> 0 \<and> nat_of_digits d \<noteq> 0
     \<and> nat_of_digits y \<noteq> 0
   \<Longrightarrow> parseUSDate v = Some (js_Date (int (nat_of_digits y)) (int (nat_of_digits m) - 1)
                               (int (nat_of_digits d)))"
  using match_us_date_complete [of "cleanStr v" m d y] by (simp add: parseUSDate_def)

lemma js_Date_calendar:
  "1 \<le> M \<and> M \<le> 12 \<and> 100 \<le> Y \<Longrightarrow> js_Date Y (M - 1) D = days_from_civil Y M D"
proof -
  assume a: "1 \<le> M \<and> M \<le> 12 \<and> 100 \<le> Y"
  then have "(M - 1) div 12 = 0" "(M - 1) mod 12 = M - 1" by auto
  then show ?thesis using a by (simp add: js_Date_def MakeDay_def days_from_civil_def Let_def)
qed

text \<open>
  Claim C7, as the code has it. \<open>parseUSDate\<close> is total and yields no date exactly when
  the trimmed input is not of the shape one or two digits, slash, one or two digits,
  slash, four digits, or one of the three numbers is zero. An input of that shape with
  non-zero numbers is accepted whatever the numbers are, and read as
  \<open>new Date(year, month - 1, day)\<close>; for a calendar date of year 100 or later that is
  the day itself.
\<close>

theorem parseUSDate_shape_only:
  "(parseUSDate v = None \<longleftrightarrow>
      \<not> (\<exists>m d y. us_date_shape (cleanStr v) m d y
            \<and> nat_of_digits m \<noteq> 0 \<and> nat_of_digits d \<noteq> 0 \<and> nat_of_digits y \<noteq> 0))
   \<and> (us_date_shape (cleanStr v) m d y
        \<and> nat_of_digits m \<noteq> 0 \<and> nat_of_digits d \<noteq> 0 \<and> nat_of_digits y \<noteq> 0
      \<longrightarrow> parseUSDate v = Some (js_Date (int (nat_of_digits y)) (int (nat_of_digits m) - 1)
                                  (int (nat_of_digits d))))
   \<and> (is_calendar_date Y M D \<and> 100 \<le> Y \<longrightarrow> js_Date Y (M - 1) D = days_from_civil Y M D)"
  using parseUSDate_None_iff [of v] parseUSDate_Some [of v m d y] js_Date_calendar [of M Y D]
  by (simp add: is_calendar_date_def)

theorem parseUSDate_shape_only_witness:
  "us_date_shape (cleanStr (Some '' 3/01/2024 '')) ''3'' ''01'' ''2024''
   \<and> parseUSDate (Some '' 3/01/2024 '') = Some (days_from_civil 2024 3 1)
   \<and> is_calendar_date 2024 3 1
   \<and> parseUSDate (Some ''2024-03-01'') = None"
proof -
  have c: "cleanStr (Some '' 3/01/2024 '') = ''3/01/2024''"
    by (simp add: cleanStr_def trim_def is_space_def)
  have u: "us_date_shape (cleanStr (Some '' 3/01/2024 '')) ''3'' ''01'' ''2024''"
    unfolding c by (simp add: us_date_shape_def is_digit_def)
  have n: "nat_of_digits ''3'' = 3" "nat_of_digits ''01'' = 1" "nat_of_digits ''2024'' = 2024"
    by (simp_all add: nat_of_digits_def digit_val_def)
  have k: "is_calendar_date 2024 3 1"
    by (simp add: is_calendar_date_def days_in_month_def)
  have z: "parseUSDate (Some ''2024-03-01'') = None"
    by (simp add: parseUSDate_def cleanStr_def trim_def is_space_def match_us_date_def
        is_digit_def)
  show ?thesis
    using parseUSDate_shape_only [of "Some '' 3/01/2024 ''" "''3''" "''01''" "''2024''" 2024 3 1]
      u n k z by simp
qed

theorem parseUSDate_invalid_date_counterexample:
  "\<not> is_calendar_date 2024 2 30
   \<and> \<not> (parseUSDate (Some ''02/30/2024'') = None)
   \<and> parseUSDate (Some ''02/30/2024'') = parseUSDate (Some ''03/01/2024'')
   \<and> \<not> is_calendar_date 2024 13 45
   \<and> \<not> (parseUSDate (Some ''13/45/2024'') = None)"
  by (simp add: is_calendar_date_def days_in_month_def leap_year_def
      parseUSDate_def cleanStr_def trim_def is_space_def match_us_date_def is_digit_def
      nat_of_digits_def digit_val_def js_Date_def MakeDay_def days_from_civil_def)

subsection \<open>The store and the writer\<close>

lemma commit_snoc: "commit (b @ [w]) s = upsert (commit b s) w"
  by (simp add: commit_def)

lemma commit_append: "commit (a @ b) s = commit b (commit a s)"
  by (simp add: commit_def)

lemma dom_upsert: "dom (upsert s w) = insert (fst w) (dom s)"
  by (simp add: upsert_def)

lemma dom_commit: "dom (commit ws s) = dom s \<union> fst ` set ws"
  unfolding commit_def by (induction ws arbitrary: s) (auto simp add: dom_upsert)

lemma held_new: "held new_writer = []" "writer_ok new_writer" "\<not> committed new_writer"
  by (simp_all add: held_def new_writer_def writer_ok_def)

lemma batch_add_None: "batch_add w wr = None \<longleftrightarrow> committed wr"
  by (simp add: batch_add_def)




lemma flush_held:
  assumes "writer_ok wr"
  shows "concat (flush wr) = held wr @ (if committed wr then batch wr else [])"
  using assms by (auto simp add: flush_def held_def writer_ok_def)

lemma flush_set:
  assumes "writer_ok wr"
  shows "set (concat (flush wr)) = set (held wr)"
proof (cases "committed wr")
  case False
  then show ?thesis using assms by (simp add: flush_held)
next
  case True
  then have "batch wr \<in> set (sent wr)" using assms
    by (metis writer_ok_def last_in_set)
  then have "set (batch wr) \<subseteq> set (concat (sent wr))" by auto
  then show ?thesis using True assms by (auto simp add: flush_held held_def)
qed

lemma batch_set_held:
  assumes "\<not> committed wr" and "writer_ok wr"
  shows "held (batch_set limit w wr) = held wr @ [w]" and "writer_ok (batch_set limit w wr)"
    and "\<not> committed (batch_set limit w wr)"
  using assms by (simp_all add: batch_set_def held_def writer_ok_def Let_def)

lemma writer_fold:
  assumes "\<not> committed wr0" and "writer_ok wr0"
  shows "held (foldl (\<lambda>wr x. batch_set limit (f x) wr) wr0 xs) = held wr0 @ map f xs
   \<and> writer_ok (foldl (\<lambda>wr x. batch_set limit (f x) wr) wr0 xs)
   \<and> \<not> committed (foldl (\<lambda>wr x. batch_set limit (f x) wr) wr0 xs)"
  using assms
proof (induction xs arbitrary: wr0)
  case Nil
  then show ?case by simp
next
  case (Cons x xs)
  have "held (batch_set limit (f x) wr0) = held wr0 @ [f x]"
    "writer_ok (batch_set limit (f x) wr0)" "\<not> committed (batch_set limit (f x) wr0)"
    using Cons.prems by (simp_all add: batch_set_held)
  then show ?case using Cons.IH [of "batch_set limit (f x) wr0"] by simp
qed

subsection \<open>The streaming reader\<close>

lemma rows_of_snoc:
  "rows_of (evs @ [ev]) = (case ev of Row results \<Rightarrow> rows_of evs @ [results] | Idle b \<Rightarrow> rows_of evs)"
  by (induction evs rule: rows_of.induct) (simp_all split: event.splits)



lemma length_indexed: "length (indexed rows) = length rows"
  by (simp add: indexed_def)

lemma stream_run_Nil:
  "stream_run onRow resumed [] st =
     \<lparr>rd_counts = \<lparr>rowCount = 0, skippedCount = 0, parseErrorCount = 0\<rparr>,
      rd_unsettled = 0, rd_state = st\<rparr>"
  by (simp add: stream_run_def)

lemma stream_run_snoc:
  "stream_run onRow resumed (evs @ [ev]) st
     = event_step onRow resumed (stream_run onRow resumed evs st) ev"
  by (simp add: stream_run_def)








lemma stream_parseErrors:
  "parseErrorCount (rd_counts (stream_run onRow resumed evs st))
     = sum_list (map res_errors (filter (\<lambda>results. res_data results \<noteq> []) (rows_of evs)))"
proof (induction evs rule: rev_induct)
  case Nil
  show ?case by (simp add: stream_run_Nil)
next
  case (snoc ev evs)
  then show ?case
    by (cases ev) (simp_all add: stream_run_snoc rows_of_snoc step_def idle_def Let_def)
qed


subsection \<open>The header pass\<close>























subsection \<open>Counters of the header pass\<close>






















end
